theory Spec2Isabelle
  imports Complex_Main "HOL-Library.Word"
begin

section \<open>The crop-non-zero node of image\_proc\<close>

text \<open>
  A shallow embedding of \<^verbatim>\<open>CropNonZeroNode::imageCb\<close>
  (\<^verbatim>\<open>src/image_proc/src/crop_non_zero.cpp\<close>, lines 88 to 139). The callback
  decodes an image message, rejects everything that is not single-channel, builds an
  8-bit mask, extracts the contours of the mask, selects the contour with the most
  points, and publishes the part of the decoded image inside the bounding rectangle of
  that contour.

  The callback is written against OpenCV, cv\_bridge and sensor\_msgs. Their simple
  operations (\<^verbatim>\<open>cv::boundingRect\<close>, \<^verbatim>\<open>cv::Mat::operator()(Rect)\<close>,
  \<^verbatim>\<open>cv::minMaxIdx\<close>, \<^verbatim>\<open>cv::Mat::convertTo\<close>, \<^verbatim>\<open>std::max_element\<close>)
  are defined here after their documented behaviour. The complex ones
  (\<^verbatim>\<open>cv_bridge::toCvShare\<close>, \<^verbatim>\<open>numChannels\<close>, \<^verbatim>\<open>cv::findContours\<close>) are
  parameters of the model, collected in a record, and theorems quantify over them.
\<close>

subsection \<open>Data\<close>

type_synonym uchar = "8 word"

text \<open>\<^verbatim>\<open>cv::Point\<close>: the pair \<open>(x, y)\<close>, column first.\<close>

type_synonym Point = "int \<times> int"

text \<open>\<^verbatim>\<open>cv::Rect\<close>: top-left corner and size.\<close>

record Rect =
  rect_x :: int
  rect_y :: int
  rect_width :: int
  rect_height :: int

text \<open>
  \<^verbatim>\<open>cv::Mat\<close>, single channel: \<open>rows\<close> lines of \<open>cols\<close> samples each. A sample
  is the exact value of the stored number, so the record covers every depth (8U, 8S,
  16U, 16S, 32S, and the finite samples of 32F and 64F). The sample at line \<open>i\<close>,
  column \<open>j\<close> is \<open>mat_data m ! i ! j\<close>. The pixels of a multi-channel matrix are
  never read by the callback, which returns before touching them.
\<close>

record Mat =
  rows :: nat
  cols :: nat
  mat_data :: "rat list list"

definition wf_Mat :: "Mat \<Rightarrow> bool" where
  "wf_Mat m \<longleftrightarrow>
     length (mat_data m) = rows m \<and> list_all (\<lambda>r. length r = cols m) (mat_data m)"

text \<open>
  \<^verbatim>\<open>sensor_msgs::msg::Image\<close>. The header (time stamp and frame id) is opaque to the
  callback, which only copies it; its type is a parameter.
\<close>

record 'h Image =
  header :: 'h
  height :: nat
  width :: nat
  encoding :: string
  is_bigendian :: uchar
  step :: nat
  data :: "uchar list"

text \<open>\<^verbatim>\<open>cv_bridge::CvImage\<close>, the value built in lines 130 to 133 and published.\<close>

record 'h CvImage =
  cv_header :: 'h
  cv_encoding :: string
  image :: Mat

text \<open>
  The node: the topic name set by the constructor and the publisher \<^verbatim>\<open>pub_\<close>,
  represented by the images it has published, oldest first.
\<close>

record 'h CropNonZeroNode =
  image_topic :: string
  pub :: "'h CvImage list"

text \<open>
  Abnormal ends of the callback: an index past the end of a \<^verbatim>\<open>std::vector\<close>
  (undefined behaviour in C++), and a failed \<^verbatim>\<open>CV_Assert\<close> (a \<^verbatim>\<open>cv::Exception\<close>
  that the callback does not catch).
\<close>

datatype fault = VectorIndexOutOfRange | CvAssertFailed

subsection \<open>Values of type double\<close>

text \<open>
  The normalisation of lines 111 to 115 divides by a range that can be zero, so the
  infinities and NaN of IEEE 754 arithmetic are values of the model. A finite double is
  represented by the rational it denotes, and the operations on finite values are
  exact: the model gives the result of the C++ code wherever the double operations
  are exact (small integers, all operations with an infinity or NaN), and does not
  track rounding elsewhere. A zero divisor is \<open>+0\<close>, which is what
  \<^verbatim>\<open>maxVal - minVal\<close> yields for equal operands.
\<close>

datatype double = Finite rat | PosInf | NegInf | NaN

fun dneg :: "double \<Rightarrow> double" where
  "dneg (Finite a) = Finite (- a)"
| "dneg PosInf = NegInf"
| "dneg NegInf = PosInf"
| "dneg NaN = NaN"

fun dadd :: "double \<Rightarrow> double \<Rightarrow> double" where
  "dadd NaN b = NaN"
| "dadd a NaN = NaN"
| "dadd (Finite a) (Finite b) = Finite (a + b)"
| "dadd (Finite a) PosInf = PosInf"
| "dadd (Finite a) NegInf = NegInf"
| "dadd PosInf (Finite b) = PosInf"
| "dadd NegInf (Finite b) = NegInf"
| "dadd PosInf PosInf = PosInf"
| "dadd NegInf NegInf = NegInf"
| "dadd PosInf NegInf = NaN"
| "dadd NegInf PosInf = NaN"

definition dsub :: "double \<Rightarrow> double \<Rightarrow> double" where
  "dsub a b = dadd a (dneg b)"

fun dmul :: "double \<Rightarrow> double \<Rightarrow> double" where
  "dmul NaN b = NaN"
| "dmul a NaN = NaN"
| "dmul (Finite a) (Finite b) = Finite (a * b)"
| "dmul (Finite a) PosInf = (if a = 0 then NaN else if 0 < a then PosInf else NegInf)"
| "dmul (Finite a) NegInf = (if a = 0 then NaN else if 0 < a then NegInf else PosInf)"
| "dmul PosInf (Finite b) = (if b = 0 then NaN else if 0 < b then PosInf else NegInf)"
| "dmul NegInf (Finite b) = (if b = 0 then NaN else if 0 < b then NegInf else PosInf)"
| "dmul PosInf PosInf = PosInf"
| "dmul NegInf NegInf = PosInf"
| "dmul PosInf NegInf = NegInf"
| "dmul NegInf PosInf = NegInf"

fun ddiv :: "double \<Rightarrow> double \<Rightarrow> double" where
  "ddiv NaN b = NaN"
| "ddiv a NaN = NaN"
| "ddiv (Finite a) (Finite b) =
     (if b \<noteq> 0 then Finite (a / b)
      else if a = 0 then NaN else if 0 < a then PosInf else NegInf)"
| "ddiv (Finite a) PosInf = Finite 0"
| "ddiv (Finite a) NegInf = Finite 0"
| "ddiv PosInf (Finite b) = (if 0 \<le> b then PosInf else NegInf)"
| "ddiv NegInf (Finite b) = (if 0 \<le> b then NegInf else PosInf)"
| "ddiv PosInf PosInf = NaN"
| "ddiv NegInf NegInf = NaN"
| "ddiv PosInf NegInf = NaN"
| "ddiv NegInf PosInf = NaN"

subsection \<open>The library operations that are parameters\<close>

text \<open>
  \<^item> \<open>toCvShare\<close>: \<^verbatim>\<open>cv_bridge::toCvShare\<close>, the decoded matrix, or the text of the
    \<^verbatim>\<open>cv_bridge::Exception\<close> it throws.
  \<^item> \<open>numChannels\<close>: \<^verbatim>\<open>sensor_msgs::image_encodings::numChannels\<close>.
  \<^item> \<open>findContours\<close>: the contours that \<^verbatim>\<open>cv::findContours\<close> extracts with
    \<^verbatim>\<open>CV_RETR_EXTERNAL\<close> and \<^verbatim>\<open>CV_CHAIN_APPROX_NONE\<close>.
  \<^item> \<open>findContours_leaves\<close>: what \<^verbatim>\<open>cv::findContours\<close> leaves in the buffer of the
    matrix it is given. Before OpenCV 3.2 the function overwrote its input while
    tracing; since 3.2 it takes its input read-only and leaves it as it is.
  \<^item> \<open>cvRound_indefinite\<close>: the integer that \<^verbatim>\<open>cvRound\<close> yields for a value with no
    representation in \<^verbatim>\<open>int\<close> (NaN, an infinity, a magnitude of \<open>2^31\<close> or more).
    The hardware decides it: SSE2 gives \<open>-2^31\<close> for all of them.
\<close>

record 'h cv_env =
  toCvShare :: "'h Image \<Rightarrow> string + Mat"
  numChannels :: "string \<Rightarrow> int"
  findContours :: "Mat \<Rightarrow> Point list list"
  findContours_leaves :: "Mat \<Rightarrow> Mat"
  cvRound_indefinite :: "double \<Rightarrow> int"

subsection \<open>The OpenCV operations that are defined\<close>

text \<open>\<^verbatim>\<open>cvRound\<close> rounds to the nearest integer, halves to the even one.\<close>

definition round_half_even :: "rat \<Rightarrow> int" where
  "round_half_even q =
     (let f = \<lfloor>q\<rfloor>; d = q - of_int f
      in if d < 1 / 2 then f else if 1 / 2 < d then f + 1 else if even f then f else f + 1)"

definition cvRound :: "'h cv_env \<Rightarrow> double \<Rightarrow> int" where
  "cvRound env d =
     (case d of
        Finite q \<Rightarrow>
          if - (2 ^ 31) \<le> round_half_even q \<and> round_half_even q < 2 ^ 31
          then round_half_even q else cvRound_indefinite env d
      | _ \<Rightarrow> cvRound_indefinite env d)"

text \<open>
  \<^verbatim>\<open>saturate_cast<uchar>(int v)\<close>:
  \<^verbatim>\<open>(unsigned)v <= UCHAR_MAX ? v : v > 0 ? UCHAR_MAX : 0\<close>.
\<close>

definition saturate_cast_uchar :: "int \<Rightarrow> rat" where
  "saturate_cast_uchar v = (if 0 \<le> v \<and> v \<le> 255 then of_int v else if 0 < v then 255 else 0)"

text \<open>
  \<^verbatim>\<open>src.convertTo(dst, CV_8U, alpha, beta)\<close>: every sample \<open>v\<close> becomes
  \<^verbatim>\<open>saturate_cast<uchar>(v * alpha + beta)\<close>; the size is that of the source.
\<close>

definition convertTo :: "'h cv_env \<Rightarrow> Mat \<Rightarrow> double \<Rightarrow> double \<Rightarrow> Mat" where
  "convertTo env src alpha beta =
     src\<lparr>mat_data :=
       map (map (\<lambda>v. saturate_cast_uchar (cvRound env (dadd (dmul (Finite v) alpha) beta))))
         (mat_data src)\<rparr>"

text \<open>The comparison \<^verbatim>\<open>cv_ptr->image != 0.\<close> of line 112, sample by sample.\<close>

definition ne_zero :: "Mat \<Rightarrow> bool list list" where
  "ne_zero m = map (map (\<lambda>v. v \<noteq> 0)) (mat_data m)"

text \<open>
  \<^verbatim>\<open>cv::minMaxIdx(src, &minVal, &maxVal, 0, 0, mask)\<close>: the least and the greatest
  sample among those where the mask is set; both are 0 when the mask selects nothing.
\<close>

definition masked_samples :: "Mat \<Rightarrow> bool list list \<Rightarrow> rat list" where
  "masked_samples m msk = map fst (filter snd (zip (concat (mat_data m)) (concat msk)))"

definition minMaxIdx :: "Mat \<Rightarrow> bool list list \<Rightarrow> double \<times> double" where
  "minMaxIdx m msk =
     (case masked_samples m msk of
        [] \<Rightarrow> (Finite 0, Finite 0)
      | v # vs \<Rightarrow> (Finite (fold min vs v), Finite (fold max vs v)))"

text \<open>
  \<^verbatim>\<open>cv::boundingRect\<close> of a point vector: the empty rectangle for no point, and
  otherwise \<^verbatim>\<open>Rect(xmin, ymin, xmax - xmin + 1, ymax - ymin + 1)\<close>.
\<close>

definition boundingRect :: "Point list \<Rightarrow> Rect" where
  "boundingRect pts =
     (case pts of
        [] \<Rightarrow> \<lparr>rect_x = 0, rect_y = 0, rect_width = 0, rect_height = 0\<rparr>
      | p # ps \<Rightarrow>
          let xmin = fold min (map fst ps) (fst p); xmax = fold max (map fst ps) (fst p);
              ymin = fold min (map snd ps) (snd p); ymax = fold max (map snd ps) (snd p)
          in \<lparr>rect_x = xmin, rect_y = ymin,
              rect_width = xmax - xmin + 1, rect_height = ymax - ymin + 1\<rparr>)"

text \<open>
  \<^verbatim>\<open>cv::Mat::operator()(const Rect& roi)\<close>: the constructor asserts
  \<^verbatim>\<open>0 <= roi.x && 0 <= roi.width && roi.x + roi.width <= m.cols && 0 <= roi.y &&
  0 <= roi.height && roi.y + roi.height <= m.rows\<close>, and a rectangle without area gives
  the empty matrix.
\<close>

definition mat_roi :: "Mat \<Rightarrow> Rect \<Rightarrow> fault + Mat" where
  "mat_roi m roi =
     (if 0 \<le> rect_x roi \<and> 0 \<le> rect_width roi \<and> rect_x roi + rect_width roi \<le> int (cols m) \<and>
         0 \<le> rect_y roi \<and> 0 \<le> rect_height roi \<and> rect_y roi + rect_height roi \<le> int (rows m)
      then
        (if rect_height roi \<le> 0 \<or> rect_width roi \<le> 0
         then Inr \<lparr>rows = 0, cols = 0, mat_data = []\<rparr>
         else Inr \<lparr>rows = nat (rect_height roi), cols = nat (rect_width roi),
                   mat_data =
                     map (\<lambda>line. take (nat (rect_width roi)) (drop (nat (rect_x roi)) line))
                       (take (nat (rect_height roi)) (drop (nat (rect_y roi)) (mat_data m)))\<rparr>)
      else Inl CvAssertFailed)"

text \<open>\<^verbatim>\<open>std::vector::operator[]\<close>: no bounds check, so an index past the end is a fault.\<close>

definition vector_at :: "'a list \<Rightarrow> nat \<Rightarrow> fault + 'a" where
  "vector_at xs i = (if i < length xs then Inr (xs ! i) else Inl VectorIndexOutOfRange)"

subsection \<open>\<^verbatim>\<open>std::max_element\<close> and the selected contour\<close>

text \<open>
  \<^verbatim>\<open>std::max_element(first, last, comp)\<close> keeps an iterator \<open>largest\<close>, starting at
  \<open>first\<close>, and moves it to a later element only when \<open>comp(*largest, *it)\<close> holds.
  On an empty range it returns \<open>last\<close>. The model returns the distance of the result
  from \<open>begin\<close>, which is what line 128 computes with \<^verbatim>\<open>std::distance\<close>; for an empty
  vector that distance is 0.
\<close>

fun max_element_from :: "('a \<Rightarrow> 'a \<Rightarrow> bool) \<Rightarrow> 'a \<Rightarrow> nat \<Rightarrow> nat \<Rightarrow> 'a list \<Rightarrow> nat" where
  "max_element_from cmp largest li i [] = li"
| "max_element_from cmp largest li i (x # xs) =
     (if cmp largest x then max_element_from cmp x i (Suc i) xs
      else max_element_from cmp largest li (Suc i) xs)"

definition max_element :: "('a \<Rightarrow> 'a \<Rightarrow> bool) \<Rightarrow> 'a list \<Rightarrow> nat" where
  "max_element cmp xs = (case xs of [] \<Rightarrow> 0 | x # rest \<Rightarrow> max_element_from cmp x 0 1 rest)"

text \<open>The comparator of lines 123 to 126: \<^verbatim>\<open>a.size() < b.size()\<close>.\<close>

definition size_less :: "Point list \<Rightarrow> Point list \<Rightarrow> bool" where
  "size_less a b \<longleftrightarrow> length a < length b"

subsection \<open>The callback\<close>

definition TYPE_8UC1 :: string where
  "TYPE_8UC1 = ''8UC1''"

text \<open>
  Lines 106 to 116, the mask \<open>m\<close>. The matrix allocated in line 106 is replaced in both
  branches: line 109 makes \<open>m\<close> share the samples of the decoded image (cv\_bridge
  decodes the encoding 8UC1 to depth 8U, so the assignment converts nothing), and
  \<^verbatim>\<open>convertTo\<close> in line 115 allocates its destination anew.
\<close>

definition make_mask :: "'h cv_env \<Rightarrow> 'h Image \<Rightarrow> Mat \<Rightarrow> Mat" where
  "make_mask env raw_msg img =
     (if encoding raw_msg = TYPE_8UC1 then img
      else
        let (minVal, maxVal) = minMaxIdx img (ne_zero img);
            ra = dsub maxVal minVal
        in convertTo env img (ddiv (Finite 255) ra) (ddiv (dmul (dneg minVal) (Finite 255)) ra))"

text \<open>The range \<^verbatim>\<open>ra\<close> of line 113, for the statements about it.\<close>

definition normalization_range :: "Mat \<Rightarrow> double" where
  "normalization_range img = (let (minVal, maxVal) = minMaxIdx img (ne_zero img) in dsub maxVal minVal)"

text \<open>
  The callback returns a fault, or the lines it logged with \<^verbatim>\<open>RCLCPP_ERROR\<close> and the
  node afterwards. This is the callback on values, for a \<^verbatim>\<open>cv::findContours\<close> that
  leaves its input as it is; \<open>imageCb_mem\<close> below places the values in their buffers
  and lets \<^verbatim>\<open>cv::findContours\<close> write.
\<close>

definition imageCb ::
  "'h cv_env \<Rightarrow> 'h Image \<Rightarrow> 'h CropNonZeroNode \<Rightarrow> fault + (string list \<times> 'h CropNonZeroNode)"
where
  "imageCb env raw_msg node =
     (case toCvShare env raw_msg of
        Inl e \<Rightarrow> Inr ([''cv_bridge exception: '' @ e], node)
      | Inr cv_img \<Rightarrow>
          if numChannels env (encoding raw_msg) \<noteq> 1
          then Inr ([''Only grayscale image is acceptable, got ['' @ encoding raw_msg @ '']''], node)
          else
            let m = make_mask env raw_msg cv_img;
                cnt = findContours env m;
                it = max_element size_less cnt
            in (case vector_at cnt it of
                  Inl f \<Rightarrow> Inl f
                | Inr c \<Rightarrow>
                    (case mat_roi cv_img (boundingRect c) of
                       Inl f \<Rightarrow> Inl f
                     | Inr sub \<Rightarrow>
                         Inr ([], node\<lparr>pub := pub node @
                                [\<lparr>cv_header = header raw_msg, cv_encoding = encoding raw_msg,
                                  image = sub\<rparr>]\<rparr>))))"

subsection \<open>What the callback relies on from \<^verbatim>\<open>cv::findContours\<close>\<close>

text \<open>
  A contour is a non-empty sequence of border pixels of a connected non-zero region:
  every point lies inside the mask, on a non-zero sample.
\<close>

definition contour_in_mask :: "Mat \<Rightarrow> Point list \<Rightarrow> bool" where
  "contour_in_mask m c \<longleftrightarrow>
     c \<noteq> [] \<and>
     list_all (\<lambda>p. 0 \<le> fst p \<and> fst p < int (cols m) \<and> 0 \<le> snd p \<and> snd p < int (rows m) \<and>
                    mat_data m ! nat (snd p) ! nat (fst p) \<noteq> 0) c"

definition contours_in_mask :: "Mat \<Rightarrow> Point list list \<Rightarrow> bool" where
  "contours_in_mask m cnt \<longleftrightarrow> list_all (contour_in_mask m) cnt"

text \<open>
  \<^verbatim>\<open>CV_RETR_EXTERNAL\<close> gives the outer border of every outermost region; a region
  nested in a hole of another one lies inside the border of that one. So every non-zero
  sample of the mask lies in the bounding rectangle of some contour.
\<close>

definition point_in_rect :: "Point \<Rightarrow> Rect \<Rightarrow> bool" where
  "point_in_rect p r \<longleftrightarrow>
     rect_x r \<le> fst p \<and> fst p < rect_x r + rect_width r \<and>
     rect_y r \<le> snd p \<and> snd p < rect_y r + rect_height r"

text \<open>The coordinates of the non-zero samples, line by line.\<close>

definition nonzero_points :: "Mat \<Rightarrow> Point list" where
  "nonzero_points m =
     concat (map (\<lambda>i. concat (map (\<lambda>j. if mat_data m ! i ! j \<noteq> 0 then [(int j, int i)] else [])
                                  [0..<cols m]))
               [0..<rows m])"

definition contours_cover_mask :: "Mat \<Rightarrow> Point list list \<Rightarrow> bool" where
  "contours_cover_mask m cnt \<longleftrightarrow>
     list_all (\<lambda>p. list_ex (\<lambda>c. point_in_rect p (boundingRect c)) cnt) (nonzero_points m)"

subsection \<open>The callback over the pixel buffers\<close>

text \<open>
  Two pixel buffers are in play: the buffer of the message, which
  \<^verbatim>\<open>cv_bridge::toCvShare\<close> shares with \<^verbatim>\<open>cv_ptr->image\<close>, and the buffer that line
  106 allocates for \<open>m\<close>. A memory gives the matrix held in each. The functions above
  compute with the values; the ones here say in which buffer each value is read and
  written.
\<close>

datatype buffer = MessageBuffer | MaskBuffer

type_synonym memory = "buffer \<Rightarrow> Mat"

text \<open>
  Lines 106 to 116: the buffer that \<open>m\<close> refers to afterwards, and the memory. Line 109
  assigns the header of \<^verbatim>\<open>cv_ptr->image\<close> to \<open>m\<close>, which then refers to the buffer of
  the message and nothing is written. Line 115 writes the converted samples into the
  buffer of \<open>m\<close>, which is the one allocated in line 106.
\<close>

definition mask_lines :: "'h cv_env \<Rightarrow> 'h Image \<Rightarrow> memory \<Rightarrow> buffer \<times> memory" where
  "mask_lines env raw_msg mem =
     (if encoding raw_msg = TYPE_8UC1 then (MessageBuffer, mem)
      else
        let (minVal, maxVal) = minMaxIdx (mem MessageBuffer) (ne_zero (mem MessageBuffer));
            ra = dsub maxVal minVal
        in (MaskBuffer,
            mem(MaskBuffer :=
              convertTo env (mem MessageBuffer) (ddiv (Finite 255) ra)
                (ddiv (dmul (dneg minVal) (Finite 255)) ra))))"

text \<open>
  The callback on a memory whose message buffer holds the decoded image. Line 118 hands
  \<open>m\<close> to \<^verbatim>\<open>cv::findContours\<close>, which reads the buffer of \<open>m\<close> and leaves in it what
  \<open>findContours_leaves\<close> says; line 133 reads the buffer of the message. The memory
  after the callback is part of the result.
\<close>

definition imageCb_mem ::
  "'h cv_env \<Rightarrow> 'h Image \<Rightarrow> 'h CropNonZeroNode \<Rightarrow> memory \<Rightarrow>
   fault + (string list \<times> 'h CropNonZeroNode \<times> memory)"
where
  "imageCb_mem env raw_msg node mem =
     (case toCvShare env raw_msg of
        Inl e \<Rightarrow> Inr ([''cv_bridge exception: '' @ e], node, mem)
      | Inr cv_img \<Rightarrow>
          if numChannels env (encoding raw_msg) \<noteq> 1
          then Inr ([''Only grayscale image is acceptable, got ['' @ encoding raw_msg @ '']''],
                    node, mem)
          else
            let (m, mem1) = mask_lines env raw_msg mem;
                cnt = findContours env (mem1 m);
                mem2 = mem1(m := findContours_leaves env (mem1 m));
                it = max_element size_less cnt
            in (case vector_at cnt it of
                  Inl f \<Rightarrow> Inl f
                | Inr c \<Rightarrow>
                    (case mat_roi (mem2 MessageBuffer) (boundingRect c) of
                       Inl f \<Rightarrow> Inl f
                     | Inr sub \<Rightarrow>
                         Inr ([], node\<lparr>pub := pub node @
                                [\<lparr>cv_header = header raw_msg, cv_encoding = encoding raw_msg,
                                  image = sub\<rparr>]\<rparr>, mem2))))"

subsection \<open>A concrete environment for examples\<close>

text \<open>
  The theorems below hold for every environment. To evaluate the callback on a concrete
  frame, an environment is fixed here:
  \<^item> \<open>decode_frame\<close> decodes the unsigned 8-bit and 16-bit single-channel encodings
    and the 8-bit colour encodings as cv\_bridge does: \<open>bytes_per_sample\<close> bytes per
    sample, \<open>samples_per_pixel\<close> interleaved samples per pixel, lines \<open>step\<close> bytes
    apart, and an exception for an encoding it does not know or a buffer of the wrong
    size;
  \<^item> \<open>numChannels_common\<close> is \<^verbatim>\<open>numChannels\<close> on the common encodings;
  \<^item> \<open>findContours_isolated\<close> is what \<^verbatim>\<open>cv::findContours\<close> returns on a mask whose
    non-zero samples are pairwise non-adjacent: every such sample is a region of its
    own, whose border is the one point, and regions come out last found first. On a
    mask without non-zero sample it is the empty list;
  \<^item> \<^verbatim>\<open>cv::findContours\<close> leaves its input as it is, as since OpenCV 3.2;
  \<^item> \<^verbatim>\<open>cvRound\<close> yields \<open>-2^31\<close> for a value without representation, as on x86-64.
\<close>

definition bytes_per_sample :: "string \<Rightarrow> nat" where
  "bytes_per_sample enc = (if enc \<in> set [''16UC1'', ''mono16''] then 2 else 1)"

definition samples_per_pixel :: "string \<Rightarrow> nat" where
  "samples_per_pixel enc = (if enc \<in> set [''rgb8'', ''bgr8''] then 3 else 1)"

definition sample_at :: "'h Image \<Rightarrow> nat \<Rightarrow> nat \<Rightarrow> rat" where
  "sample_at msg i j =
     (if bytes_per_sample (encoding msg) = 1
      then of_nat (unat (data msg ! (i * step msg + j)))
      else
        let b0 = unat (data msg ! (i * step msg + 2 * j));
            b1 = unat (data msg ! (i * step msg + 2 * j + 1))
        in if is_bigendian msg = 0 then of_nat (b0 + 256 * b1) else of_nat (b1 + 256 * b0))"

definition decode_frame :: "'h Image \<Rightarrow> string + Mat" where
  "decode_frame msg =
     (if encoding msg \<notin> set [''8UC1'', ''mono8'', ''16UC1'', ''mono16'', ''rgb8'', ''bgr8'']
      then Inl (''Unrecognized image encoding ['' @ encoding msg @ '']'')
      else if step msg <
                width msg * samples_per_pixel (encoding msg) * bytes_per_sample (encoding msg) \<or>
              length (data msg) \<noteq> height msg * step msg
      then Inl ''Image is wrongly formed''
      else Inr \<lparr>rows = height msg, cols = width msg,
                mat_data =
                  map (\<lambda>i. map (sample_at msg i)
                             [0..<width msg * samples_per_pixel (encoding msg)])
                    [0..<height msg]\<rparr>)"

definition numChannels_common :: "string \<Rightarrow> int" where
  "numChannels_common enc =
     (if enc \<in> set [''bgr8'', ''rgb8'', ''bgr16'', ''rgb16'', ''8UC3'', ''16UC3''] then 3
      else if enc \<in> set [''bgra8'', ''rgba8'', ''bgra16'', ''rgba16'', ''8UC4'', ''16UC4''] then 4
      else if enc \<in> set [''yuv422'', ''8UC2'', ''16UC2''] then 2
      else 1)"

definition findContours_isolated :: "Mat \<Rightarrow> Point list list" where
  "findContours_isolated m = map (\<lambda>p. [p]) (rev (nonzero_points m))"

definition example_env :: "unit cv_env" where
  "example_env =
     \<lparr>toCvShare = decode_frame, numChannels = numChannels_common,
      findContours = findContours_isolated, findContours_leaves = (\<lambda>m. m),
      cvRound_indefinite = (\<lambda>d. - (2 ^ 31))\<rparr>"

text \<open>
  What \<^verbatim>\<open>cv::findContours\<close> returns on a mask of at least two lines and two columns
  whose samples are all non-zero: one contour, the border of the mask, traced from the
  top-left corner down the left column, along the bottom line, up the right column and
  back along the top line.
\<close>

definition findContours_filled :: "Mat \<Rightarrow> Point list list" where
  "findContours_filled m =
     [map (\<lambda>i. (0, int i)) [0..<rows m] @
      map (\<lambda>j. (int j, int (rows m) - 1)) [1..<cols m] @
      map (\<lambda>i. (int (cols m) - 1, int i)) (rev [0..<rows m - 1]) @
      map (\<lambda>j. (int j, 0)) (rev [1..<cols m - 1])]"

definition filled_env :: "unit cv_env" where
  "filled_env = example_env\<lparr>findContours := findContours_filled\<rparr>"

text \<open>A node that has published nothing yet.\<close>

definition fresh_node :: "unit CropNonZeroNode" where
  "fresh_node = \<lparr>image_topic = ''image_raw'', pub = []\<rparr>"

text \<open>A frame of \<open>h\<close> lines and \<open>w\<close> columns with tightly packed lines.\<close>

definition frame :: "string \<Rightarrow> nat \<Rightarrow> nat \<Rightarrow> uchar list \<Rightarrow> unit Image" where
  "frame enc h w bytes =
     \<lparr>header = (), height = h, width = w, encoding = enc, is_bigendian = 0,
      step = w * samples_per_pixel enc * bytes_per_sample enc, data = bytes\<rparr>"

section \<open>Properties\<close>

subsection \<open>Selection of the contour\<close>

lemma max_element_from_spec:
  assumes "li < i" and "i = length pre" and "pre ! li = largest"
    and "\<forall>j < length pre. length (pre ! j) \<le> length largest"
    and "\<forall>j < li. length (pre ! j) < length largest"
  shows "max_element_from size_less largest li i xs < length (pre @ xs) \<and>
         (\<forall>j < length (pre @ xs).
            length ((pre @ xs) ! j) \<le> length ((pre @ xs) ! max_element_from size_less largest li i xs)) \<and>
         (\<forall>j < max_element_from size_less largest li i xs.
            length ((pre @ xs) ! j) < length ((pre @ xs) ! max_element_from size_less largest li i xs))"
  using assms
proof (induction xs arbitrary: largest li i pre)
  case Nil
  then show ?case by simp
next
  case (Cons x xs)
  show ?case
  proof (cases "size_less largest x")
    case True
    have len: "length largest < length x" using True by (simp add: size_less_def)
    have step: "max_element_from size_less largest li i (x # xs) =
                max_element_from size_less x i (Suc i) xs"
      using True by simp
    have a1: "i < Suc i" by simp
    have a2: "Suc i = length (pre @ [x])" using Cons.prems(2) by simp
    have a3: "(pre @ [x]) ! i = x" using Cons.prems(2) by simp
    have a4: "\<forall>j < length (pre @ [x]). length ((pre @ [x]) ! j) \<le> length x"
    proof (intro allI impI)
      fix j assume "j < length (pre @ [x])"
      then consider "j < length pre" | "j = length pre" by fastforce
      then show "length ((pre @ [x]) ! j) \<le> length x"
      proof cases
        case 1
        then show ?thesis using Cons.prems(4) len by (simp add: nth_append) (meson le_trans less_imp_le)
      next
        case 2
        then show ?thesis by simp
      qed
    qed
    have a5: "\<forall>j < i. length ((pre @ [x]) ! j) < length x"
    proof (intro allI impI)
      fix j assume "j < i"
      then have "j < length pre" using Cons.prems(2) by simp
      then show "length ((pre @ [x]) ! j) < length x"
        using Cons.prems(4) len by (simp add: nth_append) (meson le_less_trans)
    qed
    from Cons.IH [OF a1 a2 a3 a4 a5] step show ?thesis by simp
  next
    case False
    have len: "length x \<le> length largest" using False by (simp add: size_less_def)
    have step: "max_element_from size_less largest li i (x # xs) =
                max_element_from size_less largest li (Suc i) xs"
      using False by simp
    have a1: "li < Suc i" using Cons.prems(1) by simp
    have a2: "Suc i = length (pre @ [x])" using Cons.prems(2) by simp
    have a3: "(pre @ [x]) ! li = largest"
      using Cons.prems(1,2,3) by (simp add: nth_append)
    have a4: "\<forall>j < length (pre @ [x]). length ((pre @ [x]) ! j) \<le> length largest"
    proof (intro allI impI)
      fix j assume "j < length (pre @ [x])"
      then consider "j < length pre" | "j = length pre" by fastforce
      then show "length ((pre @ [x]) ! j) \<le> length largest"
      proof cases
        case 1
        then show ?thesis using Cons.prems(4) by (simp add: nth_append)
      next
        case 2
        then show ?thesis using len by simp
      qed
    qed
    have a5: "\<forall>j < li. length ((pre @ [x]) ! j) < length largest"
    proof (intro allI impI)
      fix j assume "j < li"
      then have "j < length pre" using Cons.prems(1,2) by simp
      then show "length ((pre @ [x]) ! j) < length largest"
        using Cons.prems(5) \<open>j < li\<close> by (simp add: nth_append)
    qed
    from Cons.IH [OF a1 a2 a3 a4 a5] step show ?thesis by simp
  qed
qed

lemma max_element_in_range:
  assumes "cnt \<noteq> []"
  shows "max_element size_less cnt < length cnt"
proof -
  obtain c rest where cnt: "cnt = c # rest" using assms by (cases cnt) auto
  have "max_element_from size_less c 0 1 rest < length ([c] @ rest)"
    using max_element_from_spec [of 0 1 "[c]" c rest] by simp
  then show ?thesis by (simp add: max_element_def cnt)
qed

text \<open>
  C5. For a non-empty list of contours, the contour whose bounding rectangle is taken
  (the one at index \<open>max_element size_less cnt\<close>) has the greatest number of points;
  every contour before it has strictly fewer points, so among contours of the greatest
  size the earliest is selected; and a contour that is strictly larger than every other
  one is selected wherever it stands in the list.
\<close>

theorem largest_contour_selected:
  assumes "cnt \<noteq> []"
  shows "max_element size_less cnt < length cnt \<and>
         (\<forall>j < length cnt. length (cnt ! j) \<le> length (cnt ! max_element size_less cnt)) \<and>
         (\<forall>j < max_element size_less cnt.
            length (cnt ! j) < length (cnt ! max_element size_less cnt)) \<and>
         (\<forall>c \<in> set cnt. (\<forall>d \<in> set cnt. d \<noteq> c \<longrightarrow> length d < length c) \<longrightarrow>
            cnt ! max_element size_less cnt = c)"
proof -
  obtain c0 rest where cnt: "cnt = c0 # rest" using assms by (cases cnt) auto
  let ?k = "max_element size_less cnt"
  have k: "?k = max_element_from size_less c0 0 1 rest" by (simp add: max_element_def cnt)
  have spec: "?k < length cnt \<and> (\<forall>j < length cnt. length (cnt ! j) \<le> length (cnt ! ?k)) \<and>
      (\<forall>j < ?k. length (cnt ! j) < length (cnt ! ?k))"
  proof -
    have app: "[c0] @ rest = cnt" by (simp add: cnt)
    have raw: "max_element_from size_less c0 0 1 rest < length ([c0] @ rest) \<and>
         (\<forall>j < length ([c0] @ rest).
            length (([c0] @ rest) ! j) \<le> length (([c0] @ rest) ! max_element_from size_less c0 0 1 rest)) \<and>
         (\<forall>j < max_element_from size_less c0 0 1 rest.
            length (([c0] @ rest) ! j) < length (([c0] @ rest) ! max_element_from size_less c0 0 1 rest))"
      by (rule max_element_from_spec) simp_all
    show ?thesis using raw unfolding app k .
  qed
  have uniq: "cnt ! ?k = c"
    if c: "c \<in> set cnt" and top: "\<forall>d \<in> set cnt. d \<noteq> c \<longrightarrow> length d < length c" for c
  proof (rule ccontr)
    assume ne: "cnt ! ?k \<noteq> c"
    have "cnt ! ?k \<in> set cnt" using spec by simp
    then have lt: "length (cnt ! ?k) < length c" using top ne by blast
    obtain j where "j < length cnt" "cnt ! j = c" using c by (auto simp: in_set_conv_nth)
    then have "length c \<le> length (cnt ! ?k)" using spec by blast
    then show False using lt by simp
  qed
  show ?thesis using spec uniq by blast
qed

text \<open>
  Witness for C5: among contours of 1, 2 and 2 points the second is selected, the first
  of the two largest; with one largest contour it is selected wherever it stands.
\<close>

theorem largest_contour_selected_witness:
  "[[(0,0)], [(1,1),(1,2)], [(5,5),(5,6)]] \<noteq> ([] :: Point list list) \<and>
   max_element size_less [[(0,0)], [(1,1),(1,2)], [(5,5),(5,6)]] = 1 \<and>
   max_element size_less [[(1,1),(1,2)], [(0,0)]] = 0 \<and>
   max_element size_less [[(0,0)], [(1,1),(1,2)]] = 1"
  using largest_contour_selected [of "[[(0,0)], [(1,1),(1,2)], [(5,5),(5,6)]]"]
  by (simp add: max_element_def size_less_def)

subsection \<open>The two guarded exits\<close>

text \<open>
  C10. When decoding the message fails (\<^verbatim>\<open>cv_bridge::toCvShare\<close> throws), the callback
  logs the exception and returns: nothing is published and the node is as before. This
  exit comes before the check of the channel count and the search for contours.
\<close>

theorem decode_failure_drops_frame:
  assumes "toCvShare env raw_msg = Inl e"
  shows "imageCb env raw_msg node = Inr ([''cv_bridge exception: '' @ e], node)"
  using assms by (simp add: imageCb_def)

text \<open>Witness for C10: a frame of two lines of two samples that carries three bytes.\<close>

theorem decode_failure_drops_frame_witness:
  "toCvShare example_env (frame ''8UC1'' 2 2 [1, 2, 3]) = Inl ''Image is wrongly formed'' \<and>
   imageCb example_env (frame ''8UC1'' 2 2 [1, 2, 3]) fresh_node =
     Inr ([''cv_bridge exception: Image is wrongly formed''], fresh_node)"
proof -
  have h: "toCvShare example_env (frame ''8UC1'' 2 2 [1, 2, 3]) = Inl ''Image is wrongly formed''"
    by (simp add: example_env_def decode_frame_def frame_def bytes_per_sample_def
        samples_per_pixel_def)
  show ?thesis using h decode_failure_drops_frame [OF h, of fresh_node] by simp
qed

text \<open>
  C2. A decoded image whose encoding declares more than one channel is rejected: the
  callback logs that only grayscale images are acceptable and returns. No image is
  published and the node is as before; the decoded image is not looked at.
\<close>

theorem multi_channel_rejected:
  assumes "toCvShare env raw_msg = Inr cv_img" and "1 < numChannels env (encoding raw_msg)"
  shows "imageCb env raw_msg node =
         Inr ([''Only grayscale image is acceptable, got ['' @ encoding raw_msg @ '']''], node)"
  using assms by (simp add: imageCb_def)

text \<open>Witness for C2: a frame of one pixel in the encoding rgb8.\<close>

theorem multi_channel_rejected_witness:
  "toCvShare example_env (frame ''rgb8'' 1 1 [7, 0, 7]) =
     Inr \<lparr>rows = 1, cols = 1, mat_data = [[7, 0, 7]]\<rparr> \<and>
   1 < numChannels example_env (encoding (frame ''rgb8'' 1 1 [7, 0, 7])) \<and>
   imageCb example_env (frame ''rgb8'' 1 1 [7, 0, 7]) fresh_node =
     Inr ([''Only grayscale image is acceptable, got [rgb8]''], fresh_node)"
proof -
  have h1: "toCvShare example_env (frame ''rgb8'' 1 1 [7, 0, 7]) =
     Inr \<lparr>rows = 1, cols = 1, mat_data = [[7, 0, 7]]\<rparr>"
    by code_simp
  have h2: "1 < numChannels example_env (encoding (frame ''rgb8'' 1 1 [7, 0, 7]))"
    by (simp add: example_env_def numChannels_common_def frame_def)
  have e: "encoding (frame ''rgb8'' 1 1 [7, 0, 7]) = ''rgb8''" by (simp add: frame_def)
  show ?thesis using h1 h2 multi_channel_rejected [OF h1 h2, of fresh_node] unfolding e by simp
qed

subsection \<open>A mask without contour\<close>

text \<open>
  A mask whose samples are all zero has no contour, and the callback then indexes the
  empty vector in line 128: \<^verbatim>\<open>std::max_element\<close> returns \<open>end()\<close>, the distance
  from \<open>begin()\<close> is 0, and \<^verbatim>\<open>cnt[0]\<close> does not exist.
\<close>

lemma no_contour_in_zero_mask:
  assumes cim: "contours_in_mask m cnt" and wf: "wf_Mat m"
    and zero: "list_all (list_all (\<lambda>v. v = 0)) (mat_data m)"
  shows "cnt = []"
proof (rule ccontr)
  assume "cnt \<noteq> []"
  then obtain c where c: "c \<in> set cnt" by (cases cnt) auto
  then have cm: "contour_in_mask m c" using cim by (simp add: contours_in_mask_def list_all_iff)
  then obtain p where p: "p \<in> set c" by (cases c) (auto simp: contour_in_mask_def)
  from cm p have b: "0 \<le> fst p" "fst p < int (cols m)" "0 \<le> snd p" "snd p < int (rows m)"
    and nz: "mat_data m ! nat (snd p) ! nat (fst p) \<noteq> 0"
    by (auto simp: contour_in_mask_def list_all_iff)
  have i: "nat (snd p) < length (mat_data m)" using b wf by (simp add: wf_Mat_def)
  then have line: "mat_data m ! nat (snd p) \<in> set (mat_data m)" by simp
  then have len: "length (mat_data m ! nat (snd p)) = cols m"
    using wf by (simp add: wf_Mat_def list_all_iff)
  have "nat (fst p) < length (mat_data m ! nat (snd p))" using b len by simp
  then have "mat_data m ! nat (snd p) ! nat (fst p) \<in> set (mat_data m ! nat (snd p))" by simp
  then have "mat_data m ! nat (snd p) ! nat (fst p) = 0"
    using zero line by (simp add: list_all_iff)
  then show False using nz by simp
qed

lemma empty_contours_fault:
  assumes "toCvShare env raw_msg = Inr cv_img" and "numChannels env (encoding raw_msg) = 1"
    and "findContours env (make_mask env raw_msg cv_img) = []"
  shows "imageCb env raw_msg node = Inl VectorIndexOutOfRange"
  using assms by (simp add: imageCb_def max_element_def vector_at_def)

text \<open>
  C1. The claim is that an image whose samples are all zero makes the callback end with
  an explicit error and without a fault. The code has no such exit. For every frame with
  the encoding 8UC1 that decodes to an image of zero samples, the mask is that image,
  \<^verbatim>\<open>cv::findContours\<close> extracts no contour from it, and the callback ends in the
  fault of line 128, the index into the empty vector.
\<close>

theorem zero_image_faults:
  assumes dec: "toCvShare env raw_msg = Inr cv_img" and ch: "numChannels env (encoding raw_msg) = 1"
    and enc: "encoding raw_msg = TYPE_8UC1" and wf: "wf_Mat cv_img"
    and zero: "list_all (list_all (\<lambda>v. v = 0)) (mat_data cv_img)"
    and fc: "contours_in_mask cv_img (findContours env cv_img)"
  shows "imageCb env raw_msg node = Inl VectorIndexOutOfRange"
proof -
  have m: "make_mask env raw_msg cv_img = cv_img" using enc by (simp add: make_mask_def)
  have "findContours env cv_img = []" using no_contour_in_zero_mask [OF fc wf zero] .
  then show ?thesis using empty_contours_fault [OF dec ch] m by simp
qed

text \<open>
  Witness for C1, the failing input: a frame of two by two zero samples in the encoding
  8UC1.
\<close>

theorem zero_image_indexes_empty_vector:
  "toCvShare example_env (frame ''8UC1'' 2 2 [0, 0, 0, 0]) =
     Inr \<lparr>rows = 2, cols = 2, mat_data = [[0, 0], [0, 0]]\<rparr> \<and>
   numChannels example_env (encoding (frame ''8UC1'' 2 2 [0, 0, 0, 0])) = 1 \<and>
   encoding (frame ''8UC1'' 2 2 [0, 0, 0, 0]) = TYPE_8UC1 \<and>
   findContours example_env \<lparr>rows = 2, cols = 2, mat_data = [[0, 0], [0, 0]]\<rparr> = [] \<and>
   imageCb example_env (frame ''8UC1'' 2 2 [0, 0, 0, 0]) fresh_node = Inl VectorIndexOutOfRange"
proof -
  let ?F = "frame ''8UC1'' 2 2 [0, 0, 0, 0]"
  let ?Z = "\<lparr>rows = 2, cols = 2, mat_data = [[0, 0], [0, 0]]\<rparr>"
  have h1: "toCvShare example_env ?F = Inr ?Z" by code_simp
  have h2: "numChannels example_env (encoding ?F) = 1" by code_simp
  have h3: "encoding ?F = TYPE_8UC1" by (simp add: frame_def TYPE_8UC1_def)
  have h4: "wf_Mat ?Z" by (simp add: wf_Mat_def)
  have h5: "list_all (list_all (\<lambda>v. v = 0)) (mat_data ?Z)" by simp
  have fc: "findContours example_env ?Z = []" by code_simp
  have h6: "contours_in_mask ?Z (findContours example_env ?Z)"
    unfolding fc by (simp add: contours_in_mask_def)
  show ?thesis
    using h1 h2 h3 fc zero_image_faults [OF h1 h2 h3 h4 h5 h6, of fresh_node] by simp
qed

subsection \<open>The bounding rectangle\<close>

lemma fold_min_Min: "fold min xs (a::'a::linorder) = Min (set (a # xs))"
  by (rule Min.set_eq_fold [symmetric])

lemma fold_max_Max: "fold max xs (a::'a::linorder) = Max (set (a # xs))"
  by (rule Max.set_eq_fold [symmetric])

lemma boundingRect_Cons:
  "boundingRect (p # ps) =
      \<lparr>rect_x = Min (set (fst p # map fst ps)), rect_y = Min (set (snd p # map snd ps)),
       rect_width = Max (set (fst p # map fst ps)) - Min (set (fst p # map fst ps)) + 1,
       rect_height = Max (set (snd p # map snd ps)) - Min (set (snd p # map snd ps)) + 1\<rparr>"
  by (simp only: boundingRect_def list.case Let_def fold_min_Min fold_max_Max)

lemma Min_le_Max_list: "Min (set (a # xs)) \<le> Max (set (a # (xs::int list)))"
proof -
  have "Min (set (a # xs)) \<le> a" by (rule Min_le) simp_all
  moreover have "a \<le> Max (set (a # xs))" by (rule Max_ge) simp_all
  ultimately show ?thesis by (rule order_trans)
qed

lemma boundingRect_area:
  "(rect_width (boundingRect c) = 0 \<and> rect_height (boundingRect c) = 0) \<or>
   (0 < rect_width (boundingRect c) \<and> 0 < rect_height (boundingRect c))"
proof (cases c)
  case Nil
  then show ?thesis by (simp add: boundingRect_def)
next
  case (Cons p ps)
  show ?thesis
    unfolding Cons boundingRect_Cons
    using Min_le_Max_list [of "fst p" "map fst ps"] Min_le_Max_list [of "snd p" "map snd ps"]
    by simp
qed

lemma boundingRect_inside:
  assumes ne: "c \<noteq> []"
    and inb: "\<forall>p \<in> set c. 0 \<le> fst p \<and> fst p < W \<and> 0 \<le> snd p \<and> snd p < H"
  shows "0 \<le> rect_x (boundingRect c) \<and> 0 \<le> rect_y (boundingRect c) \<and>
         0 < rect_width (boundingRect c) \<and> 0 < rect_height (boundingRect c) \<and>
         rect_x (boundingRect c) + rect_width (boundingRect c) \<le> W \<and>
         rect_y (boundingRect c) + rect_height (boundingRect c) \<le> H"
proof -
  obtain p ps where c: "c = p # ps" using ne by (cases c) auto
  let ?xs = "set (fst p # map fst ps)" and ?ys = "set (snd p # map snd ps)"
  have xs: "\<forall>a \<in> ?xs. 0 \<le> a \<and> a < W" and ys: "\<forall>a \<in> ?ys. 0 \<le> a \<and> a < H"
    using inb c by auto
  have mx: "Min ?xs \<in> ?xs" "Max ?xs \<in> ?xs" by (rule Min_in, simp, simp) (rule Max_in, simp, simp)
  have my: "Min ?ys \<in> ?ys" "Max ?ys \<in> ?ys" by (rule Min_in, simp, simp) (rule Max_in, simp, simp)
  have b: "0 \<le> Min ?xs" "Max ?xs < W" "0 \<le> Min ?ys" "Max ?ys < H"
    using xs ys mx my by blast+
  have key: "0 \<le> rect_x R \<and> 0 \<le> rect_y R \<and> 0 < rect_width R \<and> 0 < rect_height R \<and>
         rect_x R + rect_width R \<le> W \<and> rect_y R + rect_height R \<le> H"
    if "R = \<lparr>rect_x = x0, rect_y = y0, rect_width = x1 - x0 + 1, rect_height = y1 - y0 + 1\<rparr>"
      and "0 \<le> x0" "x0 \<le> x1" "x1 < W" "0 \<le> y0" "y0 \<le> y1" "y1 < H"
    for R x0 x1 y0 y1
    using that by simp
  have R: "boundingRect c =
      \<lparr>rect_x = Min ?xs, rect_y = Min ?ys,
       rect_width = Max ?xs - Min ?xs + 1, rect_height = Max ?ys - Min ?ys + 1\<rparr>"
    by (simp only: c boundingRect_Cons)
  show ?thesis
    by (rule key [OF R b(1) Min_le_Max_list b(2) b(3) Min_le_Max_list b(4)])
qed

lemma make_mask_size:
  "rows (make_mask env raw_msg img) = rows img \<and> cols (make_mask env raw_msg img) = cols img"
  by (simp add: make_mask_def convertTo_def Let_def split: prod.split)

lemma mat_roi_inside:
  assumes "0 \<le> rect_x r" "0 \<le> rect_y r" "0 \<le> rect_width r" "0 \<le> rect_height r"
    and "rect_x r + rect_width r \<le> int (cols m)" "rect_y r + rect_height r \<le> int (rows m)"
  shows "\<exists>sub. mat_roi m r = Inr sub"
  using assms by (simp add: mat_roi_def)

text \<open>
  C9. Every contour that \<^verbatim>\<open>cv::findContours\<close> extracts from the mask is a non-empty
  sequence of points of the mask. For a non-empty list of such contours, the bounding
  rectangle \<open>r\<close> of the selected contour lies inside the decoded image, which has the
  size of the mask: \<open>0 \<le> x\<close>, \<open>0 \<le> y\<close>, \<open>x + width \<le> cols\<close> and
  \<open>y + height \<le> rows\<close>. The assertion of \<^verbatim>\<open>cv::Mat::operator()\<close> in line 133
  therefore holds and the sub-matrix is taken inside the buffer.
\<close>

theorem selected_rect_inside_image:
  assumes cim: "contours_in_mask (make_mask env raw_msg cv_img) cnt" and ne: "cnt \<noteq> []"
    and r: "r = boundingRect (cnt ! max_element size_less cnt)"
  shows "0 \<le> rect_x r \<and> 0 \<le> rect_y r \<and> 0 < rect_width r \<and> 0 < rect_height r \<and>
         rect_x r + rect_width r \<le> int (cols cv_img) \<and>
         rect_y r + rect_height r \<le> int (rows cv_img) \<and>
         (\<exists>sub. mat_roi cv_img r = Inr sub)"
proof -
  let ?c = "cnt ! max_element size_less cnt"
  have "?c \<in> set cnt" using max_element_in_range [OF ne] by simp
  then have cm: "contour_in_mask (make_mask env raw_msg cv_img) ?c"
    using cim by (simp add: contours_in_mask_def list_all_iff)
  have c_ne: "?c \<noteq> []" using cm by (simp add: contour_in_mask_def)
  have inb: "\<forall>p \<in> set ?c. 0 \<le> fst p \<and> fst p < int (cols cv_img) \<and>
                          0 \<le> snd p \<and> snd p < int (rows cv_img)"
    using cm by (simp add: contour_in_mask_def list_all_iff make_mask_size)
  have b: "0 \<le> rect_x r \<and> 0 \<le> rect_y r \<and> 0 < rect_width r \<and> 0 < rect_height r \<and>
         rect_x r + rect_width r \<le> int (cols cv_img) \<and>
         rect_y r + rect_height r \<le> int (rows cv_img)"
    unfolding r by (rule boundingRect_inside [OF c_ne inb])
  then have "\<exists>sub. mat_roi cv_img r = Inr sub" by (intro mat_roi_inside) simp_all
  with b show ?thesis by simp
qed

text \<open>
  Witness for C9: in a mask of two by two samples with one non-zero sample at column 1 of
  line 0, the contour is that point and the rectangle is the one pixel.
\<close>

theorem selected_rect_inside_image_witness:
  "contours_in_mask
     (make_mask example_env (frame ''8UC1'' 2 2 [0, 7, 0, 0])
        \<lparr>rows = 2, cols = 2, mat_data = [[0, 7], [0, 0]]\<rparr>) [[(1, 0)]] \<and>
   [[(1, 0)]] \<noteq> ([] :: Point list list) \<and>
   boundingRect ([[(1, 0)]] ! max_element size_less [[(1, 0)]]) =
     \<lparr>rect_x = 1, rect_y = 0, rect_width = 1, rect_height = 1\<rparr> \<and>
   mat_roi \<lparr>rows = 2, cols = 2, mat_data = [[0, 7], [0, 0]]\<rparr>
     \<lparr>rect_x = 1, rect_y = 0, rect_width = 1, rect_height = 1\<rparr> =
     Inr \<lparr>rows = 1, cols = 1, mat_data = [[7]]\<rparr>"
proof -
  have h1: "contours_in_mask
     (make_mask example_env (frame ''8UC1'' 2 2 [0, 7, 0, 0])
        \<lparr>rows = 2, cols = 2, mat_data = [[0, 7], [0, 0]]\<rparr>) [[(1, 0)]]"
    by (simp add: contours_in_mask_def contour_in_mask_def make_mask_def frame_def TYPE_8UC1_def)
  have h2: "[[(1, 0)]] \<noteq> ([] :: Point list list)" by simp
  have h3: "boundingRect ([[(1, 0)]] ! max_element size_less [[(1, 0)]]) =
     \<lparr>rect_x = 1, rect_y = 0, rect_width = 1, rect_height = 1\<rparr>"
    by (simp add: max_element_def boundingRect_def)
  have h4: "mat_roi \<lparr>rows = 2, cols = 2, mat_data = [[0, 7], [0, 0]]\<rparr>
     \<lparr>rect_x = 1, rect_y = 0, rect_width = 1, rect_height = 1\<rparr> =
     Inr \<lparr>rows = 1, cols = 1, mat_data = [[7]]\<rparr>"
    by (simp add: mat_roi_def)
  show ?thesis
    using h1 h2 h3 h4 selected_rect_inside_image [OF h1 h2 h3 [symmetric]] by simp
qed

subsection \<open>The published image\<close>

lemma mat_roi_samples:
  assumes wf: "wf_Mat m" and roi: "mat_roi m r = Inr sub"
    and i: "i < rows sub" and j: "j < cols sub"
  shows "mat_data sub ! i ! j = mat_data m ! (nat (rect_y r) + i) ! (nat (rect_x r) + j)"
proof -
  have ok: "0 \<le> rect_x r" "0 \<le> rect_width r" "rect_x r + rect_width r \<le> int (cols m)"
    "0 \<le> rect_y r" "0 \<le> rect_height r" "rect_y r + rect_height r \<le> int (rows m)"
    using roi by (auto simp: mat_roi_def split: if_splits)
  have pos: "0 < rect_height r" "0 < rect_width r"
    using roi i by (auto simp: mat_roi_def split: if_splits)
  have sub: "sub = \<lparr>rows = nat (rect_height r), cols = nat (rect_width r),
                   mat_data =
                     map (\<lambda>line. take (nat (rect_width r)) (drop (nat (rect_x r)) line))
                       (take (nat (rect_height r)) (drop (nat (rect_y r)) (mat_data m)))\<rparr>"
    using roi ok pos by (simp add: mat_roi_def)
  have len: "length (mat_data m) = rows m" using wf by (simp add: wf_Mat_def)
  have i': "i < nat (rect_height r)" and j': "j < nat (rect_width r)" using i j sub by simp_all
  have yi: "nat (rect_y r) + i < length (mat_data m)" using ok i' len by linarith
  have il: "i < length (take (nat (rect_height r)) (drop (nat (rect_y r)) (mat_data m)))"
    using yi i' by simp
  have line: "take (nat (rect_height r)) (drop (nat (rect_y r)) (mat_data m)) ! i =
              mat_data m ! (nat (rect_y r) + i)"
    using i' yi by simp
  have "mat_data sub ! i = take (nat (rect_width r)) (drop (nat (rect_x r)) (mat_data m ! (nat (rect_y r) + i)))"
    unfolding sub using il line by simp
  moreover have "length (mat_data m ! (nat (rect_y r) + i)) = cols m"
    using wf yi by (simp add: wf_Mat_def list_all_length)
  ultimately show ?thesis using j' ok by simp
qed

text \<open>
  C6. When the callback publishes (it returns normally and the node has changed), the
  published image is cut from the decoded input image \<open>cv_img\<close>, not from the mask: it
  is the sub-matrix of \<open>cv_img\<close> at the bounding rectangle of the selected contour, and
  each of its samples is the sample of \<open>cv_img\<close> at the same place shifted by the corner
  of the rectangle. The header and the encoding of the published image are those of the
  message, copied, and nothing is logged.
\<close>

theorem published_image_is_crop_of_input:
  assumes dec: "toCvShare env raw_msg = Inr cv_img" and wf: "wf_Mat cv_img"
    and run: "imageCb env raw_msg node = Inr (lg, node')" and pubd: "node' \<noteq> node"
  shows "\<exists>c sub.
           vector_at (findContours env (make_mask env raw_msg cv_img))
             (max_element size_less (findContours env (make_mask env raw_msg cv_img))) = Inr c \<and>
           mat_roi cv_img (boundingRect c) = Inr sub \<and>
           lg = [] \<and>
           node' = node\<lparr>pub := pub node @
                     [\<lparr>cv_header = header raw_msg, cv_encoding = encoding raw_msg, image = sub\<rparr>]\<rparr> \<and>
           (\<forall>i < rows sub. \<forall>j < cols sub.
              mat_data sub ! i ! j =
              mat_data cv_img ! (nat (rect_y (boundingRect c)) + i) ! (nat (rect_x (boundingRect c)) + j))"
proof -
  let ?cnt = "findContours env (make_mask env raw_msg cv_img)"
  have ch: "numChannels env (encoding raw_msg) = 1"
    using run pubd dec by (auto simp: imageCb_def split: if_splits)
  obtain c where c: "vector_at ?cnt (max_element size_less ?cnt) = Inr c"
    using run dec ch by (cases "vector_at ?cnt (max_element size_less ?cnt)") (auto simp: imageCb_def Let_def)
  obtain sub where sub: "mat_roi cv_img (boundingRect c) = Inr sub"
    using run dec ch c by (cases "mat_roi cv_img (boundingRect c)") (auto simp: imageCb_def Let_def)
  have res: "lg = [] \<and> node' = node\<lparr>pub := pub node @
        [\<lparr>cv_header = header raw_msg, cv_encoding = encoding raw_msg, image = sub\<rparr>]\<rparr>"
    using run dec ch c sub by (auto simp: imageCb_def Let_def)
  have "\<forall>i < rows sub. \<forall>j < cols sub.
              mat_data sub ! i ! j =
              mat_data cv_img ! (nat (rect_y (boundingRect c)) + i) ! (nat (rect_x (boundingRect c)) + j)"
    using mat_roi_samples [OF wf sub] by blast
  with c sub res show ?thesis by blast
qed

text \<open>
  Witness for C6: a mono8 frame of two lines with the samples 5 and 9 in the middle
  column. The range is 4, the factor 63.75 and the offset \<open>-318.75\<close>, all exact in
  floating point. The mask keeps only the 9 (as 255); the published image is the one
  sample 9 of the input, with the encoding mono8.
\<close>

theorem published_image_is_crop_of_input_witness:
  "toCvShare example_env (frame ''mono8'' 2 3 [0, 5, 0, 0, 9, 0]) =
     Inr \<lparr>rows = 2, cols = 3, mat_data = [[0, 5, 0], [0, 9, 0]]\<rparr> \<and>
   wf_Mat \<lparr>rows = 2, cols = 3, mat_data = [[0, 5, 0], [0, 9, 0]]\<rparr> \<and>
   imageCb example_env (frame ''mono8'' 2 3 [0, 5, 0, 0, 9, 0]) fresh_node =
     Inr ([], \<lparr>image_topic = ''image_raw'',
               pub = [\<lparr>cv_header = (), cv_encoding = ''mono8'',
                       image = \<lparr>rows = 1, cols = 1, mat_data = [[9]]\<rparr>\<rparr>]\<rparr>) \<and>
   make_mask example_env (frame ''mono8'' 2 3 [0, 5, 0, 0, 9, 0])
     \<lparr>rows = 2, cols = 3, mat_data = [[0, 5, 0], [0, 9, 0]]\<rparr> =
     \<lparr>rows = 2, cols = 3, mat_data = [[0, 0, 0], [0, 255, 0]]\<rparr>"
proof -
  have h1: "toCvShare example_env (frame ''mono8'' 2 3 [0, 5, 0, 0, 9, 0]) =
     Inr \<lparr>rows = 2, cols = 3, mat_data = [[0, 5, 0], [0, 9, 0]]\<rparr>"
    by code_simp
  have h2: "wf_Mat \<lparr>rows = 2, cols = 3, mat_data = [[0, 5, 0], [0, 9, 0]]\<rparr>"
    by (simp add: wf_Mat_def)
  have h3: "imageCb example_env (frame ''mono8'' 2 3 [0, 5, 0, 0, 9, 0]) fresh_node =
     Inr ([], \<lparr>image_topic = ''image_raw'',
               pub = [\<lparr>cv_header = (), cv_encoding = ''mono8'',
                       image = \<lparr>rows = 1, cols = 1, mat_data = [[9]]\<rparr>\<rparr>]\<rparr>)"
    by code_simp
  have h4: "\<lparr>image_topic = ''image_raw'',
               pub = [\<lparr>cv_header = (), cv_encoding = ''mono8'',
                       image = \<lparr>rows = 1, cols = 1, mat_data = [[9]]\<rparr>\<rparr>]\<rparr> \<noteq> fresh_node"
    by (simp add: fresh_node_def)
  have h5: "make_mask example_env (frame ''mono8'' 2 3 [0, 5, 0, 0, 9, 0])
     \<lparr>rows = 2, cols = 3, mat_data = [[0, 5, 0], [0, 9, 0]]\<rparr> =
     \<lparr>rows = 2, cols = 3, mat_data = [[0, 0, 0], [0, 255, 0]]\<rparr>"
    by code_simp
  show ?thesis
    using h1 h2 h3 h5 published_image_is_crop_of_input [OF h1 h2 h3 h4] by simp
qed

subsection \<open>Cropping an image that is already cropped\<close>

lemma mat_roi_full:
  assumes wf: "wf_Mat m"
    and r: "r = \<lparr>rect_x = 0, rect_y = 0, rect_width = int (cols m), rect_height = int (rows m)\<rparr>"
    and area: "(rect_width r = 0 \<and> rect_height r = 0) \<or> (0 < rect_width r \<and> 0 < rect_height r)"
  shows "mat_roi m r = Inr m"
proof -
  have len: "length (mat_data m) = rows m" using wf by (simp add: wf_Mat_def)
  have lines: "\<forall>line \<in> set (mat_data m). length line = cols m"
    using wf by (simp add: wf_Mat_def list_all_iff)
  from area show ?thesis
  proof
    assume "rect_width r = 0 \<and> rect_height r = 0"
    then have z: "cols m = 0" "rows m = 0" using r by simp_all
    then have "mat_data m = []" using len by simp
    then have "m = \<lparr>rows = 0, cols = 0, mat_data = []\<rparr>" using z by simp
    then show ?thesis using r z by (simp add: mat_roi_def)
  next
    assume "0 < rect_width r \<and> 0 < rect_height r"
    then have p: "0 < cols m" "0 < rows m" using r by simp_all
    have "map (\<lambda>line. take (cols m) (drop 0 line)) (take (rows m) (drop 0 (mat_data m))) = mat_data m"
      using len lines by (simp add: map_idI)
    then have "\<lparr>rows = rows m, cols = cols m,
                mat_data = map (\<lambda>line. take (cols m) (drop 0 line))
                             (take (rows m) (drop 0 (mat_data m)))\<rparr> = m"
      by simp
    then show ?thesis using r p by (simp add: mat_roi_def)
  qed
qed

text \<open>
  When the bounding rectangle of the selected contour is the whole extent of the decoded
  image, the sub-matrix of line 133 is the decoded image.
\<close>

lemma full_rect_crop_returns_input:
  assumes dec: "toCvShare env raw_msg = Inr cv_img"
    and ch: "numChannels env (encoding raw_msg) = 1"
    and wf: "wf_Mat cv_img"
    and ne: "findContours env (make_mask env raw_msg cv_img) \<noteq> []"
    and full: "boundingRect (findContours env (make_mask env raw_msg cv_img) !
                 max_element size_less (findContours env (make_mask env raw_msg cv_img))) =
               \<lparr>rect_x = 0, rect_y = 0,
                rect_width = int (cols cv_img), rect_height = int (rows cv_img)\<rparr>"
  shows "imageCb env raw_msg node =
         Inr ([], node\<lparr>pub := pub node @
                [\<lparr>cv_header = header raw_msg, cv_encoding = encoding raw_msg, image = cv_img\<rparr>]\<rparr>)"
proof -
  let ?cnt = "findContours env (make_mask env raw_msg cv_img)"
  let ?c = "?cnt ! max_element size_less ?cnt"
  have at: "vector_at ?cnt (max_element size_less ?cnt) = Inr ?c"
    using max_element_in_range [OF ne] by (simp add: vector_at_def)
  have roi: "mat_roi cv_img (boundingRect ?c) = Inr cv_img"
    by (rule mat_roi_full [OF wf full boundingRect_area])
  show ?thesis using dec ch at roi by (simp add: imageCb_def Let_def)
qed

lemma ex_of_image: "a \<in> f ` set N \<Longrightarrow> \<exists>p \<in> set N. f p = a"
  by auto

lemma boundingRect_extremes:
  assumes ne: "N \<noteq> []"
    and full: "boundingRect N = \<lparr>rect_x = 0, rect_y = 0, rect_width = W, rect_height = H\<rparr>"
  shows "(\<exists>p \<in> set N. fst p = 0) \<and> (\<exists>p \<in> set N. fst p = W - 1) \<and>
         (\<exists>p \<in> set N. snd p = 0) \<and> (\<exists>p \<in> set N. snd p = H - 1)"
proof -
  obtain q qs where N: "N = q # qs" using ne by (cases N) auto
  let ?X = "set (fst q # map fst qs)" and ?Y = "set (snd q # map snd qs)"
  have img: "?X = fst ` set N" "?Y = snd ` set N" by (simp_all add: N)
  have mem: "Min ?X \<in> ?X" "Max ?X \<in> ?X" "Min ?Y \<in> ?Y" "Max ?Y \<in> ?Y"
    by (rule Min_in, simp, simp) (rule Max_in, simp, simp, rule Min_in, simp, simp, rule Max_in, simp, simp)
  have R: "boundingRect N =
      \<lparr>rect_x = Min ?X, rect_y = Min ?Y,
       rect_width = Max ?X - Min ?X + 1, rect_height = Max ?Y - Min ?Y + 1\<rparr>"
    by (simp only: N boundingRect_Cons)
  have eqs: "Min ?X = 0" "Min ?Y = 0" "Max ?X - Min ?X + 1 = W" "Max ?Y - Min ?Y + 1 = H"
    using full unfolding R by (simp_all del: set_simps list.map)
  then have v: "Max ?X = W - 1" "Max ?Y = H - 1" by linarith+
  have "0 \<in> fst ` set N" using mem(1) [unfolded img] eqs(1) [unfolded img] by simp
  moreover have "W - 1 \<in> fst ` set N" using mem(2) [unfolded img] v(1) [unfolded img] by simp
  moreover have "0 \<in> snd ` set N" using mem(3) [unfolded img] eqs(2) [unfolded img] by simp
  moreover have "H - 1 \<in> snd ` set N" using mem(4) [unfolded img] v(2) [unfolded img] by simp
  ultimately show ?thesis
    using ex_of_image [of 0 fst N] ex_of_image [of "W - 1" fst N]
      ex_of_image [of 0 snd N] ex_of_image [of "H - 1" snd N]
    by blast
qed

text \<open>
  C8, as the code has it. The rectangle is that of the selected contour of the mask, so
  the claim needs the non-zero samples of the mask to form one outer region:
  \<^verbatim>\<open>cv::findContours\<close> extracts exactly one contour from the mask. Its points are
  non-zero samples of the mask and its bounding rectangle holds every non-zero sample,
  which is what the function guarantees. When, in addition, the bounding rectangle of
  the non-zero samples of the mask is the whole extent \<open>(0, 0, cols, rows)\<close>, the
  selected rectangle is \<open>(0, 0, cols, rows)\<close> and the callback publishes the decoded
  image unchanged, with the header and the encoding of the message. For the encoding
  8UC1 the mask is the image itself.
\<close>

theorem single_region_crop_returns_input:
  assumes dec: "toCvShare env raw_msg = Inr cv_img"
    and ch: "numChannels env (encoding raw_msg) = 1"
    and wf: "wf_Mat cv_img"
    and one: "length (findContours env (make_mask env raw_msg cv_img)) = 1"
    and sound: "contours_in_mask (make_mask env raw_msg cv_img)
                  (findContours env (make_mask env raw_msg cv_img))"
    and cover: "contours_cover_mask (make_mask env raw_msg cv_img)
                  (findContours env (make_mask env raw_msg cv_img))"
    and full: "boundingRect (nonzero_points (make_mask env raw_msg cv_img)) =
               \<lparr>rect_x = 0, rect_y = 0,
                rect_width = int (cols cv_img), rect_height = int (rows cv_img)\<rparr>"
  shows "boundingRect (findContours env (make_mask env raw_msg cv_img) !
           max_element size_less (findContours env (make_mask env raw_msg cv_img))) =
         \<lparr>rect_x = 0, rect_y = 0,
          rect_width = int (cols cv_img), rect_height = int (rows cv_img)\<rparr> \<and>
         imageCb env raw_msg node =
         Inr ([], node\<lparr>pub := pub node @
                [\<lparr>cv_header = header raw_msg, cv_encoding = encoding raw_msg, image = cv_img\<rparr>]\<rparr>)"
proof -
  let ?m = "make_mask env raw_msg cv_img"
  let ?cnt = "findContours env ?m"
  let ?N = "nonzero_points ?m"
  let ?W = "int (cols cv_img)" and ?H = "int (rows cv_img)"
  obtain c where cnt: "?cnt = [c]" using one by (cases ?cnt) auto
  have sel: "?cnt ! max_element size_less ?cnt = c" by (simp add: cnt max_element_def)
  have cm: "contour_in_mask ?m c" using sound by (simp add: cnt contours_in_mask_def)
  have c_ne: "c \<noteq> []" using cm by (simp add: contour_in_mask_def)
  have inb: "\<forall>p \<in> set c. 0 \<le> fst p \<and> fst p < ?W \<and> 0 \<le> snd p \<and> snd p < ?H"
    using cm by (simp add: contour_in_mask_def list_all_iff make_mask_size)
  let ?R = "boundingRect c"
  have inside: "0 \<le> rect_x ?R \<and> 0 \<le> rect_y ?R \<and> 0 < rect_width ?R \<and> 0 < rect_height ?R \<and>
         rect_x ?R + rect_width ?R \<le> ?W \<and> rect_y ?R + rect_height ?R \<le> ?H"
    by (rule boundingRect_inside [OF c_ne inb])
  have pos: "0 < ?W" "0 < ?H" using inside by linarith+
  have N_ne: "?N \<noteq> []"
  proof
    assume "?N = []"
    then have "boundingRect ?N = \<lparr>rect_x = 0, rect_y = 0, rect_width = 0, rect_height = 0\<rparr>"
      by (simp add: boundingRect_def)
    then show False using full pos by simp
  qed
  have cov: "\<forall>p \<in> set ?N. point_in_rect p ?R"
    using cover by (simp add: contours_cover_mask_def cnt list_all_iff)
  from boundingRect_extremes [OF N_ne full]
  obtain p1 p2 p3 p4 where p: "p1 \<in> set ?N" "fst p1 = 0" "p2 \<in> set ?N" "fst p2 = ?W - 1"
      "p3 \<in> set ?N" "snd p3 = 0" "p4 \<in> set ?N" "snd p4 = ?H - 1"
    by blast
  have "point_in_rect p1 ?R" "point_in_rect p2 ?R" "point_in_rect p3 ?R" "point_in_rect p4 ?R"
    using cov p by blast+
  then have "rect_x ?R \<le> 0" "?W - 1 < rect_x ?R + rect_width ?R"
            "rect_y ?R \<le> 0" "?H - 1 < rect_y ?R + rect_height ?R"
    using p by (simp_all add: point_in_rect_def)
  then have vals: "rect_x ?R = 0" "rect_y ?R = 0" "rect_width ?R = ?W" "rect_height ?R = ?H"
    using inside by linarith+
  have rect: "?R = \<lparr>rect_x = 0, rect_y = 0, rect_width = ?W, rect_height = ?H\<rparr>"
    using vals by (cases ?R) simp
  have full_sel: "boundingRect (?cnt ! max_element size_less ?cnt) =
      \<lparr>rect_x = 0, rect_y = 0, rect_width = ?W, rect_height = ?H\<rparr>"
    unfolding sel by (rule rect)
  have ne: "?cnt \<noteq> []" by (simp add: cnt)
  show ?thesis
    using full_sel full_rect_crop_returns_input [OF dec ch wf ne full_sel] by simp
qed

text \<open>
  Witness for C8: an 8UC1 frame of two lines and three columns without zero sample. The
  one contour is the border of the frame, six points, and the frame is published as it
  is.
\<close>

theorem single_region_crop_returns_input_witness:
  "toCvShare filled_env (frame ''8UC1'' 2 3 [1, 2, 3, 4, 5, 6]) =
     Inr \<lparr>rows = 2, cols = 3, mat_data = [[1, 2, 3], [4, 5, 6]]\<rparr> \<and>
   numChannels filled_env (encoding (frame ''8UC1'' 2 3 [1, 2, 3, 4, 5, 6])) = 1 \<and>
   wf_Mat \<lparr>rows = 2, cols = 3, mat_data = [[1, 2, 3], [4, 5, 6]]\<rparr> \<and>
   findContours filled_env
     (make_mask filled_env (frame ''8UC1'' 2 3 [1, 2, 3, 4, 5, 6])
        \<lparr>rows = 2, cols = 3, mat_data = [[1, 2, 3], [4, 5, 6]]\<rparr>) =
     [[(0, 0), (0, 1), (1, 1), (2, 1), (2, 0), (1, 0)]] \<and>
   boundingRect (nonzero_points
     (make_mask filled_env (frame ''8UC1'' 2 3 [1, 2, 3, 4, 5, 6])
        \<lparr>rows = 2, cols = 3, mat_data = [[1, 2, 3], [4, 5, 6]]\<rparr>)) =
     \<lparr>rect_x = 0, rect_y = 0, rect_width = 3, rect_height = 2\<rparr> \<and>
   imageCb filled_env (frame ''8UC1'' 2 3 [1, 2, 3, 4, 5, 6]) fresh_node =
     Inr ([], \<lparr>image_topic = ''image_raw'',
               pub = [\<lparr>cv_header = (), cv_encoding = ''8UC1'',
                       image = \<lparr>rows = 2, cols = 3, mat_data = [[1, 2, 3], [4, 5, 6]]\<rparr>\<rparr>]\<rparr>)"
proof -
  let ?F = "frame ''8UC1'' 2 3 [1, 2, 3, 4, 5, 6]"
  let ?M = "\<lparr>rows = 2, cols = 3, mat_data = [[1, 2, 3], [4, 5, 6]]\<rparr>"
  have h1: "toCvShare filled_env ?F = Inr ?M" by code_simp
  have h2: "numChannels filled_env (encoding ?F) = 1" by code_simp
  have h3: "wf_Mat ?M" by (simp add: wf_Mat_def)
  have fc: "findContours filled_env (make_mask filled_env ?F ?M) =
            [[(0, 0), (0, 1), (1, 1), (2, 1), (2, 0), (1, 0)]]"
    by code_simp
  have h4: "length (findContours filled_env (make_mask filled_env ?F ?M)) = 1"
    unfolding fc by simp
  have h5: "contours_in_mask (make_mask filled_env ?F ?M)
              (findContours filled_env (make_mask filled_env ?F ?M))"
    by code_simp
  have h6: "contours_cover_mask (make_mask filled_env ?F ?M)
              (findContours filled_env (make_mask filled_env ?F ?M))"
    by code_simp
  have bb: "boundingRect (nonzero_points (make_mask filled_env ?F ?M)) =
     \<lparr>rect_x = 0, rect_y = 0, rect_width = 3, rect_height = 2\<rparr>"
    by code_simp
  have h7: "boundingRect (nonzero_points (make_mask filled_env ?F ?M)) =
     \<lparr>rect_x = 0, rect_y = 0, rect_width = int (cols ?M), rect_height = int (rows ?M)\<rparr>"
    unfolding bb by simp
  have e: "header ?F = ()" "encoding ?F = ''8UC1''" by (simp_all add: frame_def)
  show ?thesis
    using h1 h2 h3 fc bb
      single_region_crop_returns_input [OF h1 h2 h3 h4 h5 h6 h7, of fresh_node]
    unfolding e by (simp add: fresh_node_def)
qed

text \<open>
  Counterexample to C8 as stated, in two frames. The 8UC1 frame of one line
  \<open>[255, 0, 255]\<close> has its non-zero samples at columns 0 and 2, so the bounding
  rectangle of its non-zero samples is \<open>(0, 0, 3, 1)\<close>, the full extent; the two
  samples are two regions with a contour of one point each, and the callback publishes
  an image of one sample, not the frame of three. The mono8 frame \<open>[3, 6]\<close> has no zero
  sample and one region, and is normalised first: the least sample 3 becomes 0 in the
  mask (factor 85, offset \<open>-255\<close>, exact in floating point), the mask is \<open>[0, 255]\<close>,
  and the callback publishes the one sample 6.
\<close>

theorem full_extent_crop_counterexample:
  "toCvShare example_env (frame ''8UC1'' 1 3 [255, 0, 255]) =
     Inr \<lparr>rows = 1, cols = 3, mat_data = [[255, 0, 255]]\<rparr> \<and>
   numChannels example_env (encoding (frame ''8UC1'' 1 3 [255, 0, 255])) = 1 \<and>
   boundingRect (nonzero_points \<lparr>rows = 1, cols = 3, mat_data = [[255, 0, 255]]\<rparr>) =
     \<lparr>rect_x = 0, rect_y = 0, rect_width = 3, rect_height = 1\<rparr> \<and>
   imageCb example_env (frame ''8UC1'' 1 3 [255, 0, 255]) fresh_node =
     Inr ([], \<lparr>image_topic = ''image_raw'',
               pub = [\<lparr>cv_header = (), cv_encoding = ''8UC1'',
                       image = \<lparr>rows = 1, cols = 1, mat_data = [[255]]\<rparr>\<rparr>]\<rparr>) \<and>
   imageCb example_env (frame ''8UC1'' 1 3 [255, 0, 255]) fresh_node \<noteq>
     Inr ([], \<lparr>image_topic = ''image_raw'',
               pub = [\<lparr>cv_header = (), cv_encoding = ''8UC1'',
                       image = \<lparr>rows = 1, cols = 3, mat_data = [[255, 0, 255]]\<rparr>\<rparr>]\<rparr>) \<and>
   toCvShare example_env (frame ''mono8'' 1 2 [3, 6]) =
     Inr \<lparr>rows = 1, cols = 2, mat_data = [[3, 6]]\<rparr> \<and>
   numChannels example_env (encoding (frame ''mono8'' 1 2 [3, 6])) = 1 \<and>
   boundingRect (nonzero_points \<lparr>rows = 1, cols = 2, mat_data = [[3, 6]]\<rparr>) =
     \<lparr>rect_x = 0, rect_y = 0, rect_width = 2, rect_height = 1\<rparr> \<and>
   imageCb example_env (frame ''mono8'' 1 2 [3, 6]) fresh_node =
     Inr ([], \<lparr>image_topic = ''image_raw'',
               pub = [\<lparr>cv_header = (), cv_encoding = ''mono8'',
                       image = \<lparr>rows = 1, cols = 1, mat_data = [[6]]\<rparr>\<rparr>]\<rparr>)"
  by code_simp

subsection \<open>The mask of an 8-bit image\<close>






text \<open>
  With a \<^verbatim>\<open>cv::findContours\<close> that clears its input, an 8UC1 frame is cleared in the
  buffer of the message and the published image is cut from the cleared samples; a
  mono8 frame keeps its samples, the mask having a buffer of its own.
\<close>

lemma overwriting_findContours_reaches_input:
  "(case imageCb_mem
           (example_env\<lparr>findContours_leaves :=
              (\<lambda>m. m\<lparr>mat_data := map (map (\<lambda>v. 0)) (mat_data m)\<rparr>)\<rparr>)
           (frame ''8UC1'' 1 2 [0, 2]) fresh_node
           (\<lambda>b. \<lparr>rows = 1, cols = 2, mat_data = [[0, 2]]\<rparr>) of
      Inl f \<Rightarrow> False
    | Inr (lg, node', mem') \<Rightarrow>
        mem' MessageBuffer = \<lparr>rows = 1, cols = 2, mat_data = [[0, 0]]\<rparr> \<and>
        map image (pub node') = [\<lparr>rows = 1, cols = 1, mat_data = [[0]]\<rparr>]) \<and>
   (case imageCb_mem
           (example_env\<lparr>findContours_leaves :=
              (\<lambda>m. m\<lparr>mat_data := map (map (\<lambda>v. 0)) (mat_data m)\<rparr>)\<rparr>)
           (frame ''mono8'' 1 2 [3, 6]) fresh_node
           (\<lambda>b. \<lparr>rows = 1, cols = 2, mat_data = [[3, 6]]\<rparr>) of
      Inl f \<Rightarrow> False
    | Inr (lg, node', mem') \<Rightarrow>
        mem' MessageBuffer = \<lparr>rows = 1, cols = 2, mat_data = [[3, 6]]\<rparr> \<and>
        map image (pub node') = [\<lparr>rows = 1, cols = 1, mat_data = [[6]]\<rparr>])"
  by code_simp




subsection \<open>A normalisation range of zero\<close>

text \<open>
  When the least and the greatest non-zero sample are equal (or no sample is non-zero),
  the range \<open>ra\<close> is zero: the factor \<^verbatim>\<open>255. / ra\<close> is \<open>+\<infinity>\<close> and the offset
  is an infinity of the opposite sign of the samples, or NaN. Every sample, zero or
  not, is then converted from NaN. Where that conversion gives 0, the mask has no
  contour and line 128 indexes the empty vector.
\<close>

lemma filter_zip_map:
  "map fst (filter snd (zip xs (map P xs))) = filter P xs"
  by (induction xs) simp_all

lemma masked_ne_zero:
  "masked_samples m (ne_zero m) = filter (\<lambda>v. v \<noteq> 0) (concat (mat_data m))"
  by (simp add: masked_samples_def ne_zero_def map_concat [symmetric] filter_zip_map)

lemma dadd_NaN_right: "dadd a NaN = NaN"
  by (cases a) simp_all

lemma dsub_Finite_zero: "dsub (Finite b) (Finite a) = Finite 0 \<Longrightarrow> b = a"
  by (simp add: dsub_def)

lemma degenerate_sample:
  assumes mm: "minMaxIdx img (ne_zero img) = (minVal, maxVal)"
    and ra: "dsub maxVal minVal = Finite 0"
    and v: "v \<in> set (concat (mat_data img))"
  shows "dadd (dmul (Finite v) (ddiv (Finite 255) (Finite 0)))
              (ddiv (dmul (dneg minVal) (Finite 255)) (Finite 0)) = NaN"
proof (cases "masked_samples img (ne_zero img)")
  case Nil
  then have "minVal = Finite 0" using mm by (simp add: minMaxIdx_def)
  then show ?thesis by (simp add: dadd_NaN_right)
next
  case (Cons u us)
  let ?S = "set (u # us)"
  have S: "?S = {w \<in> set (concat (mat_data img)). w \<noteq> 0}"
    using Cons masked_ne_zero [of img] by (metis set_filter)
  have mm': "minVal = Finite (fold min us u)" "maxVal = Finite (fold max us u)"
    using mm Cons by (auto simp: minMaxIdx_def)
  have lo: "minVal = Finite (Min ?S)" using mm'(1) by (simp only: fold_min_Min)
  have hi: "maxVal = Finite (Max ?S)" using mm'(2) by (simp only: fold_max_Max)
  have eq: "Max ?S = Min ?S" by (rule dsub_Finite_zero [OF ra [unfolded lo hi]])
  have "Min ?S \<in> ?S" by (rule Min_in) simp_all
  then have nz: "Min ?S \<noteq> 0" using S by blast
  show ?thesis
  proof (cases "v = 0")
    case True
    then show ?thesis by simp
  next
    case False
    then have vS: "v \<in> ?S" using v S by blast
    have ge: "Min ?S \<le> v" by (rule Min_le) (use vS in simp_all)
    have "v \<le> Max ?S" by (rule Max_ge) (use vS in simp_all)
    then have "v \<le> Min ?S" unfolding eq .
    then have va: "v = Min ?S" using ge by (rule order_antisym)
    define a where "a = Min ?S"
    have a: "a \<noteq> 0" unfolding a_def by (rule nz)
    have "minVal = Finite a" unfolding a_def by (rule lo)
    moreover have "v = a" unfolding a_def by (rule va)
    ultimately show ?thesis using a by (cases "0 < a") simp_all
  qed
qed

lemma degenerate_range_mask:
  assumes enc: "encoding raw_msg \<noteq> TYPE_8UC1" and ra: "normalization_range img = Finite 0"
  shows "make_mask env raw_msg img =
         img\<lparr>mat_data :=
           map (map (\<lambda>v. saturate_cast_uchar (cvRound_indefinite env NaN))) (mat_data img)\<rparr>"
proof -
  obtain minVal maxVal where mm: "minMaxIdx img (ne_zero img) = (minVal, maxVal)"
    by (cases "minMaxIdx img (ne_zero img)") auto
  have r0: "dsub maxVal minVal = Finite 0" using ra mm by (simp add: normalization_range_def)
  have each: "\<forall>line \<in> set (mat_data img). \<forall>v \<in> set line.
      saturate_cast_uchar (cvRound env (dadd (dmul (Finite v) (ddiv (Finite 255) (Finite 0)))
              (ddiv (dmul (dneg minVal) (Finite 255)) (Finite 0)))) =
      saturate_cast_uchar (cvRound_indefinite env NaN)"
  proof (intro ballI)
    fix line v assume "line \<in> set (mat_data img)" "v \<in> set line"
    then have "v \<in> set (concat (mat_data img))" by auto
    from degenerate_sample [OF mm r0 this]
    show "saturate_cast_uchar (cvRound env (dadd (dmul (Finite v) (ddiv (Finite 255) (Finite 0)))
              (ddiv (dmul (dneg minVal) (Finite 255)) (Finite 0)))) =
      saturate_cast_uchar (cvRound_indefinite env NaN)"
      by (simp add: cvRound_def)
  qed
  have "map (map (\<lambda>v. saturate_cast_uchar (cvRound env (dadd (dmul (Finite v) (ddiv (Finite 255) (Finite 0)))
              (ddiv (dmul (dneg minVal) (Finite 255)) (Finite 0)))))) (mat_data img) =
        map (map (\<lambda>v. saturate_cast_uchar (cvRound_indefinite env NaN))) (mat_data img)"
    using each by (intro map_cong refl) blast
  then show ?thesis using enc mm r0 by (simp add: make_mask_def convertTo_def Let_def)
qed

text \<open>
  C3. The claim is that with a normalisation range of zero the callback does not crash
  and gives one defined result. The code divides by the range unguarded. For every
  single-channel frame of another encoding than 8UC1 whose range is zero, on a platform
  where \<^verbatim>\<open>cvRound\<close> of NaN is not positive (it is \<open>-2^31\<close> on x86-64), the mask
  is zero everywhere, \<^verbatim>\<open>cv::findContours\<close> extracts no contour from it, and the
  callback ends in the fault of line 128.
\<close>

theorem degenerate_range_faults:
  assumes dec: "toCvShare env raw_msg = Inr cv_img"
    and ch: "numChannels env (encoding raw_msg) = 1"
    and enc: "encoding raw_msg \<noteq> TYPE_8UC1" and wf: "wf_Mat cv_img"
    and ra: "normalization_range cv_img = Finite 0"
    and nan: "cvRound_indefinite env NaN \<le> 0"
    and fc: "contours_in_mask (make_mask env raw_msg cv_img)
               (findContours env (make_mask env raw_msg cv_img))"
  shows "imageCb env raw_msg node = Inl VectorIndexOutOfRange"
proof -
  let ?m = "make_mask env raw_msg cv_img"
  have z: "saturate_cast_uchar (cvRound_indefinite env NaN) = 0"
    using nan by (simp add: saturate_cast_uchar_def)
  have m: "?m = cv_img\<lparr>mat_data := map (map (\<lambda>v. 0)) (mat_data cv_img)\<rparr>"
    using degenerate_range_mask [OF enc ra, of env] z by simp
  have wfm: "wf_Mat ?m" using wf unfolding m by (simp add: wf_Mat_def list_all_iff)
  have zero: "list_all (list_all (\<lambda>v. v = 0)) (mat_data ?m)"
    unfolding m by (simp add: list_all_iff)
  have "findContours env ?m = []" by (rule no_contour_in_zero_mask [OF fc wfm zero])
  then show ?thesis by (rule empty_contours_fault [OF dec ch])
qed

text \<open>
  Witness for C3, the failing input: a 16UC1 frame with the samples \<open>[7, 7]\<close>. The
  range is zero, the factor is \<open>+\<infinity>\<close> and the offset \<open>-\<infinity>\<close>, both samples are
  converted from NaN, and the mask is \<open>[0, 0]\<close>.
\<close>

theorem uniform_image_indexes_empty_vector:
  "toCvShare example_env (frame ''16UC1'' 1 2 [7, 0, 7, 0]) =
     Inr \<lparr>rows = 1, cols = 2, mat_data = [[7, 7]]\<rparr> \<and>
   numChannels example_env (encoding (frame ''16UC1'' 1 2 [7, 0, 7, 0])) = 1 \<and>
   encoding (frame ''16UC1'' 1 2 [7, 0, 7, 0]) \<noteq> TYPE_8UC1 \<and>
   normalization_range \<lparr>rows = 1, cols = 2, mat_data = [[7, 7]]\<rparr> = Finite 0 \<and>
   cvRound_indefinite example_env NaN \<le> 0 \<and>
   make_mask example_env (frame ''16UC1'' 1 2 [7, 0, 7, 0])
     \<lparr>rows = 1, cols = 2, mat_data = [[7, 7]]\<rparr> =
     \<lparr>rows = 1, cols = 2, mat_data = [[0, 0]]\<rparr> \<and>
   imageCb example_env (frame ''16UC1'' 1 2 [7, 0, 7, 0]) fresh_node = Inl VectorIndexOutOfRange"
proof -
  let ?F = "frame ''16UC1'' 1 2 [7, 0, 7, 0]"
  let ?U = "\<lparr>rows = 1, cols = 2, mat_data = [[7, 7]]\<rparr>"
  have h1: "toCvShare example_env ?F = Inr ?U" by code_simp
  have h2: "numChannels example_env (encoding ?F) = 1" by code_simp
  have h3: "encoding ?F \<noteq> TYPE_8UC1" by (simp add: frame_def TYPE_8UC1_def)
  have h4: "wf_Mat ?U" by (simp add: wf_Mat_def)
  have h5: "normalization_range ?U = Finite 0" by code_simp
  have h6: "cvRound_indefinite example_env NaN \<le> 0" by (simp add: example_env_def)
  have m: "make_mask example_env ?F ?U = \<lparr>rows = 1, cols = 2, mat_data = [[0, 0]]\<rparr>"
    by code_simp
  have fc: "findContours example_env \<lparr>rows = 1, cols = 2, mat_data = [[0, 0]]\<rparr> = []"
    by code_simp
  have h7: "contours_in_mask (make_mask example_env ?F ?U)
              (findContours example_env (make_mask example_env ?F ?U))"
    unfolding m fc by (simp add: contours_in_mask_def)
  show ?thesis
    using h1 h2 h3 h5 h6 m degenerate_range_faults [OF h1 h2 h3 h4 h5 h6 h7, of fresh_node]
    by simp
qed

end
